theory Spec2Isabelle
  imports Complex_Main
begin

section \<open>Entities and the bullet (store/entities/bullet.ts)\<close>

text \<open>
  The base class \<open>Entity\<close> lives in \<open>types/entities\<close>, which is not among the sources;
  \<open>Bullet\<close> extends it. The record below holds the fields of the base class that the
  bullet's code reads or writes; vectors (\<open>Vec2\<close>), hitboxes and damage amounts are JS
  objects and numbers whose arithmetic is not needed here, so their types are left open.
\<close>

record ('v, 'h) entity =
  type :: string
  position :: 'v
  velocity :: 'v
  hitbox :: 'h
  vulnerable :: bool
  despawn :: bool

record ('v, 'h, 'd) bullet = "('v, 'h) entity" +
  dmg :: 'd
  ticks :: int

text \<open>
  The constructor: \<open>super()\<close> builds the base entity (given here as \<open>base\<close>), the field
  initialisers set \<open>type\<close> and \<open>hitbox\<close> (\<open>new CircleHitbox(0.1)\<close>, given as \<open>circle\<close>),
  then the body stores the three arguments and clears \<open>vulnerable\<close>.
\<close>

definition Bullet :: "('v, 'h) entity \<Rightarrow> 'h \<Rightarrow> 'd \<Rightarrow> 'v \<Rightarrow> int \<Rightarrow> ('v, 'h, 'd) bullet" where
  "Bullet base circle d v t =
     \<lparr> type = ''bullet'', position = position base, velocity = v, hitbox = circle,
       vulnerable = False, despawn = despawn base, dmg = d, ticks = t \<rparr>"

text \<open>
  Modelled from the spec: \<open>Entity.tick\<close> (the source has only the call \<open>super.tick\<close>).
  It advances the position by the velocity and performs no collision logic. It is
  defined on every extension of the entity record, as the method of a base class is,
  and so cannot touch the fields a subclass adds. \<open>addVec\<close> is \<open>Vec2.addVec\<close>.
\<close>

definition Entity_tick ::
  "('v \<Rightarrow> 'v \<Rightarrow> 'v) \<Rightarrow> ('v, 'h, 'm) entity_scheme \<Rightarrow> ('v, 'h, 'm) entity_scheme" where
  "Entity_tick addVec e = e\<lparr>position := addVec (position e) (velocity e)\<rparr>"

text \<open>
  Modelled from the spec: \<open>Entity.die\<close> (the source has only the calls \<open>this.die()\<close>).
  It sets the despawn flag; calling it again changes nothing.
\<close>

definition die :: "('v, 'h, 'm) entity_scheme \<Rightarrow> ('v, 'h, 'm) entity_scheme" where
  "die e = e\<lparr>despawn := True\<rparr>"

text \<open>
  What a tick does to the things around the bullet is recorded as the list of the method
  calls it makes, so that "is tested" and "is damaged" can be told apart: \<open>Collided l i\<close>
  is a call \<open>this.collided(x)\<close> on element \<open>i\<close> of list \<open>l\<close>, \<open>Damage l i\<close> the call
  \<open>x.damage(this.dmg)\<close>, \<open>Die\<close> the call \<open>this.die()\<close>.
\<close>

datatype scanned = Objects | Entities

datatype call = Collided scanned nat | Damage scanned nat | Die

text \<open>
  One of the two loops of \<open>Bullet.tick\<close>:
  \<^verbatim>\<open>for (const x of xs) if (this.collided(x)) { x.damage(this.dmg); this.die(); break; }\<close>
  \<open>collided\<close> and \<open>damage\<close> are methods of classes that are not among the sources and are
  taken as parameters. \<open>collided\<close> is inherited from \<open>Entity\<close>, so it is given the base
  fields of the bullet only; \<open>damage\<close> is taken to change the thing it is called on and
  nothing else. The result is the list after the loop, whether \<open>die\<close> was called, and
  the calls made; \<open>i\<close> is the index of the head of the list.
\<close>

fun first_hit ::
  "('b \<Rightarrow> 't \<Rightarrow> bool) \<Rightarrow> ('t \<Rightarrow> 'd \<Rightarrow> 't) \<Rightarrow> scanned \<Rightarrow> 'b \<Rightarrow> 'd \<Rightarrow> nat \<Rightarrow> 't list
     \<Rightarrow> 't list \<times> bool \<times> call list" where
  "first_hit collided damage l b d i [] = ([], False, [])"
| "first_hit collided damage l b d i (x # xs) =
     (if collided b x then (damage x d # xs, True, [Collided l i, Damage l i, Die])
      else (case first_hit collided damage l b d (Suc i) xs of
              (xs', hit, cs) \<Rightarrow> (x # xs', hit, Collided l i # cs)))"

record ('v, 'h, 'd, 't) ticked =
  this :: "('v, 'h, 'd) bullet"
  entities_after :: "'t list"
  objects_after :: "'t list"
  calls :: "call list"

text \<open>
  \<open>Bullet.tick(entities, objects)\<close>: the base tick, the scan of the objects, and the scan
  of the entities unless the bullet is despawned by then.
\<close>

definition Bullet_tick ::
  "('v \<Rightarrow> 'v \<Rightarrow> 'v) \<Rightarrow> (('v, 'h) entity \<Rightarrow> 't \<Rightarrow> bool) \<Rightarrow> ('t \<Rightarrow> 'd \<Rightarrow> 't)
     \<Rightarrow> ('v, 'h, 'd) bullet \<Rightarrow> 't list \<Rightarrow> 't list \<Rightarrow> ('v, 'h, 'd, 't) ticked" where
  "Bullet_tick addVec collided damage b entities objects =
     (let b1 = Entity_tick addVec b;
          (objects', hit1, cs1) =
             first_hit collided damage Objects (entity.truncate b1) (dmg b1) 0 objects;
          b2 = (if hit1 then die b1 else b1)
      in if \<not> despawn b2
         then (let (entities', hit2, cs2) =
                      first_hit collided damage Entities (entity.truncate b2) (dmg b2) 0 entities;
                   b3 = (if hit2 then die b2 else b2)
               in \<lparr> this = b3, entities_after = entities', objects_after = objects',
                    calls = cs1 @ cs2 \<rparr>)
         else \<lparr> this = b2, entities_after = entities, objects_after = objects',
                calls = cs1 \<rparr>)"

text \<open>The index of the first element of a list that the bullet overlaps.\<close>

definition first_overlap :: "('b \<Rightarrow> 't \<Rightarrow> bool) \<Rightarrow> 'b \<Rightarrow> 't list \<Rightarrow> nat" where
  "first_overlap collided b xs = length (takeWhile (\<lambda>x. \<not> collided b x) xs)"


section \<open>Input packets of an accepted connection (server/src/index.ts, lines 106-176)\<close>

subsection \<open>Numbers\<close>

text \<open>
  The \<open>holding\<close> index and the packet field \<open>delta\<close> are JS numbers, that is IEEE 754
  doubles, and the weapon switch does arithmetic on them. A \<open>number\<close> here is a double
  that holds an integer, or one of the three special values. (A double that is not an
  integer is not covered; negative zero is taken as zero, from which the code cannot
  tell it: \<open>-0 < 0\<close> is false and \<open>weapons[-0]\<close> is \<open>weapons[0]\<close>.)
\<close>

datatype number = Num int | PosInfinity | NegInfinity | NaN

text \<open>
  A double has 53 significant bits. \<open>excess_bits m\<close> is the number of bits by which the
  natural number \<open>m\<close> is longer than that, so that the doubles around \<open>m\<close> are the
  multiples of \<open>2 ^ excess_bits m\<close>.
\<close>

function excess_bits :: "nat \<Rightarrow> nat" where
  "excess_bits m = (if m < 2 ^ 53 then 0 else Suc (excess_bits (m div 2)))"
  by pat_completeness auto
termination
  by (relation "measure (\<lambda>m. m)") auto

text \<open>
  Rounding of a magnitude to the nearest double, a tie going to the one with the even
  significand; an integer below \<open>2 ^ 53\<close> is a double already.
\<close>

definition nearest_double :: "nat \<Rightarrow> nat" where
  "nearest_double m =
     (let ulp = 2 ^ excess_bits m; q = m div ulp; r = m mod ulp
      in if 2 * r < ulp then q * ulp
         else if ulp < 2 * r then (q + 1) * ulp
         else if even q then q * ulp
         else (q + 1) * ulp)"

text \<open>
  The double that an exact integer result is rounded to. A magnitude that rounds to
  \<open>2 ^ 1024\<close> or more overflows to an infinity.
\<close>

definition to_double :: "int \<Rightarrow> number" where
  "to_double i =
     (let m = nearest_double (nat \<bar>i\<bar>)
      in if 2 ^ 1024 \<le> m then (if i < 0 then NegInfinity else PosInfinity)
         else Num (if i < 0 then - int m else int m))"

text \<open>JS's \<open>a + b\<close>, \<open>a < 0\<close> and \<open>a % n\<close> (for \<open>n\<close> the length of an array).\<close>

fun js_add :: "number \<Rightarrow> number \<Rightarrow> number" where
  "js_add (Num a) (Num b) = to_double (a + b)"
| "js_add NaN b = NaN"
| "js_add a NaN = NaN"
| "js_add PosInfinity NegInfinity = NaN"
| "js_add NegInfinity PosInfinity = NaN"
| "js_add PosInfinity b = PosInfinity"
| "js_add a PosInfinity = PosInfinity"
| "js_add NegInfinity b = NegInfinity"
| "js_add a NegInfinity = NegInfinity"

fun below_zero :: "number \<Rightarrow> bool" where
  "below_zero (Num a) = (a < 0)"
| "below_zero NegInfinity = True"
| "below_zero PosInfinity = False"
| "below_zero NaN = False"

fun js_rem :: "number \<Rightarrow> nat \<Rightarrow> number" where
  "js_rem (Num a) n = (if n = 0 then NaN else Num (sgn a * (\<bar>a\<bar> mod int n)))"
| "js_rem PosInfinity n = NaN"
| "js_rem NegInfinity n = NaN"
| "js_rem NaN n = NaN"

subsection \<open>The player and the closure of the message handler\<close>

text \<open>
  \<open>Player\<close> (\<open>store/entities\<close>) is not among the sources. The record holds what the message
  handler reads and writes: the velocity inherited from \<open>Entity\<close>, the two intent flags
  and the inventory with its \<open>holding\<close> index and its weapon slots. A slot is \<open>None\<close> when
  it holds no weapon. The packet field \<open>direction\<close> is used as an array index only and
  is an \<open>int\<close>.
\<close>

record 'w inventory =
  holding :: number
  weapons :: "'w option list"

record ('v, 'h, 'w) player = "('v, 'h) entity" +
  inventory :: "'w inventory"
  tryAttacking :: bool
  tryInteracting :: bool

text \<open>
  The variables of the connection handler that the message handler closes over:
  \<open>movements\<close> (\<open>[false, false, false, false]\<close> at first), \<open>buttons\<close> and \<open>player\<close>.
\<close>

record ('v, 'h, 'w) closure =
  movements :: "bool list"
  buttons :: "int \<rightharpoonup> bool"
  player :: "('v, 'h, 'w) player"

text \<open>
  An uncaught exception of the handler. The only one the modelled cases can raise is the
  \<open>TypeError\<close> of reading a coordinate of \<open>undefined\<close>, when \<open>addVec\<close> is handed
  \<open>DIRECTION_VEC[ii]\<close> for an index the table does not have.
\<close>

datatype error = TypeError

text \<open>
  \<open>movements[direction] = v\<close> on a JS array. An integer from 0 to \<open>2^32 - 2\<close> is an array
  index: inside the array the element is replaced, beyond its end the array grows to
  \<open>direction + 1\<close> elements and the ones in between are holes. A hole reads as
  \<open>undefined\<close>, which the loop's \<open>if (movements[ii])\<close> takes as false, so a hole is \<open>False\<close>
  here. Any other key (a negative number) sets a property and leaves the elements and
  the length as they are.
\<close>

definition array_set :: "bool list \<Rightarrow> int \<Rightarrow> bool \<Rightarrow> bool list" where
  "array_set xs i v =
     (if 0 \<le> i \<and> i < 4294967295
      then (if nat i < length xs then xs[nat i := v]
            else xs @ replicate (nat i - length xs) False @ [v])
      else xs)"

text \<open>
  The loop shared by both movement cases, from index \<open>ii\<close> on the remaining flags:
  \<^verbatim>\<open>for (let ii = 0; ii < movements.length; ii++)
    if (movements[ii]) angleVec = angleVec.addVec(DIRECTION_VEC[ii]);\<close>
  \<open>Vec2\<close> and the table \<open>DIRECTION_VEC\<close> (\<open>types/math\<close>, \<open>constants\<close>) are not among the
  sources: \<open>addVec\<close> and the table \<open>dirs\<close> are parameters.
\<close>

fun angleVec_loop ::
  "('v \<Rightarrow> 'v \<Rightarrow> 'v) \<Rightarrow> 'v list \<Rightarrow> nat \<Rightarrow> bool list \<Rightarrow> 'v \<Rightarrow> error + 'v" where
  "angleVec_loop addVec dirs ii [] angleVec = Inr angleVec"
| "angleVec_loop addVec dirs ii (m # ms) angleVec =
     (if m
      then (if ii < length dirs
            then angleVec_loop addVec dirs (Suc ii) ms (addVec angleVec (dirs ! ii))
            else Inl TypeError)
      else angleVec_loop addVec dirs (Suc ii) ms angleVec)"

text \<open>
  Modelled from the spec: \<open>setVelocity\<close> of the player (the source has only the call).
  It stores the velocity.
\<close>

definition setVelocity :: "('v, 'h, 'm) entity_scheme \<Rightarrow> 'v \<Rightarrow> ('v, 'h, 'm) entity_scheme" where
  "setVelocity e v = e\<lparr>velocity := v\<rparr>"

text \<open>
  The cases \<open>"movementpress"\<close> and \<open>"movementrelease"\<close>. \<open>zero\<close> is \<open>Vec2.ZERO\<close> and \<open>unit\<close>
  is \<open>Vec2.unit\<close>. An exception leaves the handler, so no state is returned with it.
\<close>

definition movementpress ::
  "'v \<Rightarrow> ('v \<Rightarrow> 'v \<Rightarrow> 'v) \<Rightarrow> ('v \<Rightarrow> 'v) \<Rightarrow> 'v list \<Rightarrow> int \<Rightarrow> ('v, 'h, 'w) closure
     \<Rightarrow> error + ('v, 'h, 'w) closure" where
  "movementpress zero addVec unit dirs direction c =
     (let movements' = array_set (movements c) direction True
      in case angleVec_loop addVec dirs 0 movements' zero of
           Inl e \<Rightarrow> Inl e
         | Inr angleVec \<Rightarrow>
             Inr (c\<lparr>movements := movements', player := setVelocity (player c) (unit angleVec)\<rparr>))"

definition movementrelease ::
  "'v \<Rightarrow> ('v \<Rightarrow> 'v \<Rightarrow> 'v) \<Rightarrow> ('v \<Rightarrow> 'v) \<Rightarrow> 'v list \<Rightarrow> int \<Rightarrow> ('v, 'h, 'w) closure
     \<Rightarrow> error + ('v, 'h, 'w) closure" where
  "movementrelease zero addVec unit dirs direction c =
     (let movements' = array_set (movements c) direction False
      in case angleVec_loop addVec dirs 0 movements' zero of
           Inl e \<Rightarrow> Inl e
         | Inr angleVec \<Rightarrow>
             Inr (c\<lparr>movements := movements', player := setVelocity (player c) (unit angleVec)\<rparr>))"

text \<open>
  The spec's words for the velocity: the sum of the direction vectors of the flags that
  are pressed, each flag taken with the vector at its index.
\<close>

definition pressed_sum :: "'v \<Rightarrow> ('v \<Rightarrow> 'v \<Rightarrow> 'v) \<Rightarrow> 'v list \<Rightarrow> bool list \<Rightarrow> 'v" where
  "pressed_sum zero addVec dirs flags = foldl addVec zero (map snd (filter fst (zip flags dirs)))"

subsection \<open>Switching weapons\<close>

text \<open>
  \<open>Inventory.getWeapon\<close> is a method of a class that is not among the sources, and is
  taken as the parameter \<open>getWeapon\<close>: what it returns for the inventory and an index,
  \<open>None\<close> for a result that \<open>!\<close> takes as false.

  The two lines that follow every change of \<open>holding\<close>, for \<open>n\<close> the number of slots:
  \<^verbatim>\<open>if (holding < 0) holding += player.inventory.weapons.length;
  else holding %= player.inventory.weapons.length;\<close>
\<close>

definition wrap :: "nat \<Rightarrow> number \<Rightarrow> number" where
  "wrap n h = (if below_zero h then js_add h (Num (int n)) else js_rem h n)"

text \<open>
  The loop \<^verbatim>\<open>while (!player.inventory.getWeapon(holding)) { holding += unitDelta; ... }\<close>.
  It may run forever, which is the value \<open>None\<close>.
\<close>

partial_function (option) skip_empty ::
  "('w inventory \<Rightarrow> number \<Rightarrow> 'w option) \<Rightarrow> 'w inventory \<Rightarrow> number \<Rightarrow> number \<Rightarrow> number option" where
  "skip_empty getWeapon inven unitDelta h =
     (if getWeapon inven h \<noteq> None then Some h
      else skip_empty getWeapon inven unitDelta
             (wrap (length (weapons inven)) (js_add h unitDelta)))"

text \<open>The case \<open>"switchweapon"\<close>, on the player's inventory.\<close>

definition switchweapon ::
  "('w inventory \<Rightarrow> number \<Rightarrow> 'w option) \<Rightarrow> number \<Rightarrow> bool \<Rightarrow> 'w inventory \<Rightarrow> 'w inventory option" where
  "switchweapon getWeapon delta setMode inven =
     (if setMode
      then Some (if getWeapon inven delta \<noteq> None then inven\<lparr>holding := delta\<rparr> else inven)
      else (let unitDelta = (if below_zero delta then Num (- 1) else Num 1);
                h = wrap (length (weapons inven)) (js_add (holding inven) delta)
            in case skip_empty getWeapon inven unitDelta h of
                 None \<Rightarrow> None
               | Some h' \<Rightarrow> Some (inven\<lparr>holding := h'\<rparr>)))"

text \<open>
  Modelled from the spec: \<open>Inventory.getWeapon\<close>, as one thing the parameter can be. It
  gives the weapon in a slot, and nothing for an empty slot or an index that is no slot.
\<close>

fun Inventory_getWeapon :: "'w inventory \<Rightarrow> number \<Rightarrow> 'w option" where
  "Inventory_getWeapon inven (Num i) =
     (if 0 \<le> i \<and> i < int (length (weapons inven)) then weapons inven ! nat i else None)"
| "Inventory_getWeapon inven PosInfinity = None"
| "Inventory_getWeapon inven NegInfinity = None"
| "Inventory_getWeapon inven NaN = None"

section \<open>The world and the tick loop (server/src/index.ts, lines 179-191)\<close>

text \<open>
  \<open>World\<close> (\<open>types/terrain\<close>) is not among the sources. The record holds the collections
  that \<open>index.ts\<close> reads or writes; the element types are left open.
\<close>

record ('e, 'o, 'p, 's) world =
  entities :: "'e list"
  obstacles :: "'o list"
  dirtyEntities :: "'e list"
  dirtyObstacles :: "'o list"
  discardEntities :: "'e list"
  discardObstacles :: "'o list"
  particles :: "'p list"
  onceSounds :: "'s list"
  joinSounds :: "'s list"

text \<open>
  Modelled from the spec: \<open>World.postTick\<close> (the source has only the call). It clears the
  dirty and discard sets and the particle and once-sound queues.
\<close>

definition postTick :: "('e, 'o, 'p, 's) world \<Rightarrow> ('e, 'o, 'p, 's) world" where
  "postTick w =
     w\<lparr> dirtyEntities := [], dirtyObstacles := [], discardEntities := [],
        discardObstacles := [], particles := [], onceSounds := [] \<rparr>"

text \<open>
  The callback of \<open>setInterval\<close>: \<open>world.tick()\<close> (not among the sources, a parameter), the
  packets sent to the players, which change nothing in the world, and \<open>world.postTick()\<close>.
\<close>

definition interval :: "(('e, 'o, 'p, 's) world \<Rightarrow> ('e, 'o, 'p, 's) world)
     \<Rightarrow> ('e, 'o, 'p, 's) world \<Rightarrow> ('e, 'o, 'p, 's) world" where
  "interval tick w = postTick (tick w)"

section \<open>The life of a connection (server/src/index.ts, lines 52-114)\<close>

text \<open>
  A decoded message: its \<open>type\<close>, and the \<open>id\<close> and \<open>username\<close> a response carries
  (\<open>None\<close> when the field is absent).
\<close>

record message =
  msg_type :: string
  msg_id :: "string option"
  msg_username :: "string option"

text \<open>
  The state the connection handler works on: the module's \<open>sockets\<close> map (its keys),
  \<open>numberOfPlayers\<close> and \<open>world\<close>; the handler's variables \<open>id\<close>, \<open>connected\<close> and
  \<open>username\<close>; and what is registered with the event loop on behalf of this connection:
  \<^item> \<open>once_listener\<close>: the listener of \<open>socket.once("message", ...)\<close> is still registered;
  \<^item> \<open>awaiting\<close>: the handler is suspended at \<open>await Promise.race(...)\<close>, with the time in
    milliseconds at which \<open>wait(10000)\<close> resolves;
  \<^item> \<open>on_listener\<close>: the listener of \<open>socket.on("message", ...)\<close> is registered;
  \<^item> \<open>timeout\<close>: the time at which the 30-second timer is due, \<open>None\<close> when it is not
    pending;
  \<^item> \<open>close_called\<close>: the server has called \<open>socket.close()\<close>;
  \<^item> \<open>socket_open\<close>: the socket has not emitted \<open>close\<close> yet.
\<close>

record ('e, 'o, 'p, 's) session =
  sockets :: "string set"
  numberOfPlayers :: int
  world :: "('e, 'o, 'p, 's) world"
  ident :: string
  connected :: bool
  username :: string
  once_listener :: bool
  awaiting :: "nat option"
  on_listener :: bool
  timeout :: "nat option"
  close_called :: bool
  socket_open :: bool

text \<open>
  The handler of \<open>"connection"\<close> up to its \<open>await\<close> (lines 52-84), at time \<open>now\<close>, for the
  identifier that \<open>ID()\<close> returned.
\<close>

definition connection ::
  "nat \<Rightarrow> string \<Rightarrow> string set \<Rightarrow> int \<Rightarrow> ('e, 'o, 'p, 's) world \<Rightarrow> ('e, 'o, 'p, 's) session" where
  "connection now i socks n w =
     \<lparr> sockets = insert i socks, numberOfPlayers = n, world = w, ident = i,
       connected = False, username = [], once_listener = True,
       awaiting = Some (now + 10000), on_listener = False, timeout = None,
       close_called = False, socket_open = True \<rparr>"

text \<open>
  The handler of \<open>"close"\<close> (lines 63-70).
\<close>

definition close :: "('e, 'o, 'p, 's) session \<Rightarrow> ('e, 'o, 'p, 's) session" where
  "close s =
     s\<lparr> sockets := sockets s - {ident s},
        numberOfPlayers := (if connected s then numberOfPlayers s - 1 else numberOfPlayers s),
        connected := False, socket_open := False \<rparr>"

text \<open>
  The handler after its \<open>await\<close> (lines 85-177), at time \<open>now\<close>. \<open>Player\<close> is the constructor
  of the class, which is not among the sources. The packets sent change no state.
\<close>

definition after_await ::
  "(string \<Rightarrow> string \<Rightarrow> 'e) \<Rightarrow> nat \<Rightarrow> ('e, 'o, 'p, 's) session \<Rightarrow> ('e, 'o, 'p, 's) session" where
  "after_await Player now s =
     (if \<not> connected s then s
      else s\<lparr> numberOfPlayers := numberOfPlayers s + 1,
              world := (world s)\<lparr>entities := entities (world s) @ [Player (ident s) (username s)]\<rparr>,
              timeout := Some (now + 30000),
              on_listener := True \<rparr>)"

text \<open>
  \<open>resolve()\<close> of the promise that races with \<open>wait(10000)\<close>, and \<open>wait(10000)\<close> resolving:
  either one settles the race if it is pending, and the handler continues; a settled
  race stays as it is.
\<close>

definition resolve ::
  "(string \<Rightarrow> string \<Rightarrow> 'e) \<Rightarrow> nat \<Rightarrow> ('e, 'o, 'p, 's) session \<Rightarrow> ('e, 'o, 'p, 's) session" where
  "resolve Player now s =
     (case awaiting s of
        None \<Rightarrow> s
      | Some due \<Rightarrow> after_await Player now (s\<lparr>awaiting := None\<rparr>))"

text \<open>
  The listener of \<open>socket.once("message", ...)\<close> (lines 76-83). \<open>decoded.username\<close> is
  truthy when it is a non-empty string.
\<close>

definition once_message ::
  "(string \<Rightarrow> string \<Rightarrow> 'e) \<Rightarrow> nat \<Rightarrow> message \<Rightarrow> ('e, 'o, 'p, 's) session
     \<Rightarrow> ('e, 'o, 'p, 's) session" where
  "once_message Player now decoded s =
     (let s1 = s\<lparr>once_listener := False\<rparr>;
          s2 = (case msg_username decoded of
                  Some u \<Rightarrow>
                    if msg_id decoded = Some (ident s1) \<and> u \<noteq> []
                    then s1\<lparr>connected := True, username := u\<rparr>
                    else s1\<lparr>close_called := True\<rparr>
                | None \<Rightarrow> s1\<lparr>close_called := True\<rparr>)
      in resolve Player now s2)"

text \<open>
  The listener of \<open>socket.on("message", ...)\<close> (lines 110-176), as far as this state goes:
  only the case \<open>"ping"\<close> touches it, with \<open>timeout.refresh()\<close>, which makes the timer due
  30 seconds from now. The other cases change the player and \<open>movements\<close> and \<open>buttons\<close>
  (see the section on input packets).
\<close>

definition on_message :: "nat \<Rightarrow> message \<Rightarrow> ('e, 'o, 'p, 's) session \<Rightarrow> ('e, 'o, 'p, 's) session" where
  "on_message now decoded s =
     (if msg_type decoded = ''ping'' then s\<lparr>timeout := Some (now + 30000)\<rparr> else s)"

text \<open>
  The callback of the 30-second timer (lines 102-104), run when the timer is due.
\<close>

definition fire_timeout :: "nat \<Rightarrow> ('e, 'o, 'p, 's) session \<Rightarrow> ('e, 'o, 'p, 's) session" where
  "fire_timeout now s =
     (case timeout s of
        None \<Rightarrow> s
      | Some due \<Rightarrow> if due \<le> now then s\<lparr>close_called := True, timeout := None\<rparr> else s)"

text \<open>\<open>wait(10000)\<close> resolving when it is due.\<close>

definition fire_wait ::
  "(string \<Rightarrow> string \<Rightarrow> 'e) \<Rightarrow> nat \<Rightarrow> ('e, 'o, 'p, 's) session \<Rightarrow> ('e, 'o, 'p, 's) session" where
  "fire_wait Player now s =
     (case awaiting s of
        None \<Rightarrow> s
      | Some due \<Rightarrow> if due \<le> now then resolve Player due s else s)"

text \<open>
  What the event loop delivers to the connection: a message, the close of the socket, or
  nothing but the passing of time. An input comes with its time. The timers that are due
  by then run first. A message goes to the listeners registered when it is emitted, in
  the order of their registration; a closed socket emits nothing. The handler's
  continuation after \<open>await\<close> runs as a microtask, before the next input.
\<close>

datatype input = Message message | Close | Idle

definition deliver ::
  "(string \<Rightarrow> string \<Rightarrow> 'e) \<Rightarrow> nat \<Rightarrow> message \<Rightarrow> ('e, 'o, 'p, 's) session
     \<Rightarrow> ('e, 'o, 'p, 's) session" where
  "deliver Player now decoded s =
     (let s1 = (if once_listener s then once_message Player now decoded s else s)
      in if on_listener s then on_message now decoded s1 else s1)"

definition step ::
  "(string \<Rightarrow> string \<Rightarrow> 'e) \<Rightarrow> ('e, 'o, 'p, 's) session \<Rightarrow> nat \<times> input
     \<Rightarrow> ('e, 'o, 'p, 's) session" where
  "step Player s ev =
     (let now = fst ev;
          s1 = fire_timeout now (fire_wait Player now s)
      in case snd ev of
           Idle \<Rightarrow> s1
         | Close \<Rightarrow> if socket_open s1 then close s1 else s1
         | Message decoded \<Rightarrow> if socket_open s1 then deliver Player now decoded s1 else s1)"

definition run ::
  "(string \<Rightarrow> string \<Rightarrow> 'e) \<Rightarrow> ('e, 'o, 'p, 's) session \<Rightarrow> (nat \<times> input) list
     \<Rightarrow> ('e, 'o, 'p, 's) session" where
  "run Player s evs = foldl (step Player) s evs"

text \<open>
  The spec's words for the check of the first message: a response that carries the
  issued id and a non-empty username.
\<close>

definition passes_check :: "string \<Rightarrow> message \<Rightarrow> bool" where
  "passes_check i decoded \<longleftrightarrow>
     msg_id decoded = Some i \<and> (case msg_username decoded of None \<Rightarrow> False | Some u \<Rightarrow> u \<noteq> [])"

fun is_message :: "input \<Rightarrow> bool" where
  "is_message (Message decoded) = True"
| "is_message Close = False"
| "is_message Idle = False"

text \<open>
  A connection that is not accepted: \<open>connected\<close> is false, the listener of line 110 and
  the 30-second timer do not exist, and the player count and the world are the given
  ones.
\<close>

definition unaccepted ::
  "int \<Rightarrow> ('e, 'o, 'p, 's) world \<Rightarrow> ('e, 'o, 'p, 's) session \<Rightarrow> bool" where
  "unaccepted n w s \<longleftrightarrow>
     \<not> connected s \<and> \<not> on_listener s \<and> timeout s = None \<and> numberOfPlayers s = n \<and> world s = w"

section \<open>Concrete collaborators\<close>

text \<open>
  Modelled from the spec: the class \<open>Vec2\<close> (\<open>types/math\<close>, not among the sources), with
  addition and unit-normalisation, where the zero vector normalises to zero. The
  coordinates are floating-point numbers in the program and reals here; the definitions
  are run below only on the coordinates -1, 0 and 1, where the two agree.
\<close>

datatype vec2 = Vec2 real real

definition Vec2_ZERO :: vec2 where
  "Vec2_ZERO = Vec2 0 0"

fun Vec2_addVec :: "vec2 \<Rightarrow> vec2 \<Rightarrow> vec2" where
  "Vec2_addVec (Vec2 a b) (Vec2 c d) = Vec2 (a + c) (b + d)"

fun Vec2_magnitude :: "vec2 \<Rightarrow> real" where
  "Vec2_magnitude (Vec2 a b) = sqrt (a * a + b * b)"

fun Vec2_unit :: "vec2 \<Rightarrow> vec2" where
  "Vec2_unit (Vec2 a b) =
     (if Vec2_magnitude (Vec2 a b) = 0 then Vec2_ZERO
      else Vec2 (a / Vec2_magnitude (Vec2 a b)) (b / Vec2_magnitude (Vec2 a b)))"

text \<open>
  Modelled from the spec: the table \<open>DIRECTION_VEC\<close> (\<open>constants\<close>, not among the sources),
  one unit vector for each of the four directions.
\<close>

definition DIRECTION_VEC :: "vec2 list" where
  "DIRECTION_VEC = [Vec2 1 0, Vec2 0 1, Vec2 (- 1) 0, Vec2 0 (- 1)]"

text \<open>
  Modelled from the spec: things that can be hit, as a position and a health. The bullet
  overlaps a thing whose position lies within the radius of the bullet's hitbox, and
  damage lowers the health by the amount.
\<close>

type_synonym thing = "vec2 \<times> real"

fun collided_circle :: "(vec2, real) entity \<Rightarrow> thing \<Rightarrow> bool" where
  "collided_circle e (Vec2 c d, health) =
     (case position e of
        Vec2 a b \<Rightarrow> (a - c) * (a - c) + (b - d) * (b - d) \<le> hitbox e * hitbox e)"

fun damage_health :: "thing \<Rightarrow> real \<Rightarrow> thing" where
  "damage_health (p, health) amount = (p, health - amount)"

text \<open>A fresh base entity at the origin, and a bullet flying to the right.\<close>

definition origin_entity :: "(vec2, real) entity" where
  "origin_entity =
     \<lparr> type = [], position = Vec2 0 0, velocity = Vec2 0 0, hitbox = 0,
       vulnerable = True, despawn = False \<rparr>"

definition right_bullet :: "int \<Rightarrow> (vec2, real, real) bullet" where
  "right_bullet t = Bullet origin_entity (1 / 10) 5 (Vec2 1 0) t"

text \<open>
  The closure of a connection that has just been accepted: no direction pressed, and a
  player at rest who holds the weapon of slot 2, the only one of four slots that is
  occupied.
\<close>

definition fresh_closure :: "(vec2, real, string) closure" where
  "fresh_closure =
     \<lparr> movements = [False, False, False, False], buttons = Map.empty,
       player = \<lparr> type = ''player'', position = Vec2 0 0, velocity = Vec2 0 0, hitbox = 1,
                  vulnerable = True, despawn = False,
                  inventory = \<lparr> holding = Num 2, weapons = [None, None, Some ''fists'', None] \<rparr>,
                  tryAttacking = False, tryInteracting = False \<rparr> \<rparr>"

text \<open>
  A world with nothing in it, in which an entity is the pair of the id and the username
  that the constructor \<open>Player\<close> was given; a response packet, which carries an id and a
  username; and a packet of another type, which carries neither.
\<close>

definition empty_world :: "(string \<times> string, unit, unit, unit) world" where
  "empty_world =
     \<lparr> entities = [], obstacles = [], dirtyEntities = [], dirtyObstacles = [],
       discardEntities = [], discardObstacles = [], particles = [], onceSounds = [],
       joinSounds = [] \<rparr>"

definition response :: "string \<Rightarrow> string \<Rightarrow> message" where
  "response i u = \<lparr> msg_type = ''response'', msg_id = Some i, msg_username = Some u \<rparr>"

definition packet :: "string \<Rightarrow> message" where
  "packet t = \<lparr> msg_type = t, msg_id = None, msg_username = None \<rparr>"

text \<open>A connection made at time 0 with the id \<open>a1\<close>, when nobody else is connected.\<close>

definition first_connection :: "(string \<times> string, unit, unit, unit) session" where
  "first_connection = connection 0 ''a1'' {} 0 empty_world"

section \<open>Properties of the bullet\<close>

lemma upt_shift: "[i..<i + Suc n] = i # [Suc i..<Suc i + n]"
  by (simp add: upt_conv_Cons del: upt_Suc)

lemma first_hit_miss:
  "\<forall>x\<in>set xs. \<not> collided b x \<Longrightarrow>
   first_hit collided damage l b d i xs = (xs, False, map (Collided l) [i..<i + length xs])"
proof (induction xs arbitrary: i)
  case Nil
  show ?case by simp
next
  case (Cons x xs)
  have "[i..<i + length (x # xs)] = i # [Suc i..<Suc i + length xs]"
    using upt_shift [of i "length xs"] by simp
  with Cons show ?case by simp
qed

lemma first_hit_hit:
  "\<exists>x\<in>set xs. collided b x \<Longrightarrow>
   first_hit collided damage l b d i xs =
     (xs[first_overlap collided b xs := damage (xs ! first_overlap collided b xs) d], True,
      map (Collided l) [i..<i + Suc (first_overlap collided b xs)]
        @ [Damage l (i + first_overlap collided b xs), Die])"
proof (induction xs arbitrary: i)
  case Nil
  then show ?case by simp
next
  case (Cons x xs)
  show ?case
  proof (cases "collided b x")
    case True
    then show ?thesis by (simp add: first_overlap_def)
  next
    case False
    with Cons.prems have ex: "\<exists>x\<in>set xs. collided b x" by simp
    from False have fo: "first_overlap collided b (x # xs) = Suc (first_overlap collided b xs)"
      by (simp add: first_overlap_def)
    have upt: "[i..<i + Suc (first_overlap collided b (x # xs))]
                 = i # [Suc i..<Suc i + Suc (first_overlap collided b xs)]"
      unfolding fo by (rule upt_shift)
    have idx: "i + first_overlap collided b (x # xs) = Suc i + first_overlap collided b xs"
      unfolding fo by simp
    show ?thesis
      unfolding upt idx using Cons.IH [OF ex, of "Suc i"] False by (simp add: fo del: upt_Suc)
  qed
qed

lemma first_hit_flag:
  "fst (snd (first_hit collided damage l b d i xs)) = (\<exists>x\<in>set xs. collided b x)"
proof (induction xs arbitrary: i)
  case Nil
  show ?case by simp
next
  case (Cons x xs)
  show ?case
    using Cons.IH [of "Suc i"] by (cases "first_hit collided damage l b d (Suc i) xs") auto
qed

lemma first_overlap_less:
  "\<exists>x\<in>set xs. collided b x \<Longrightarrow> first_overlap collided b xs < length xs"
  unfolding first_overlap_def by (induction xs) auto

lemma first_overlap_collided:
  "\<exists>x\<in>set xs. collided b x \<Longrightarrow> collided b (xs ! first_overlap collided b xs)"
  unfolding first_overlap_def by (induction xs) auto

lemma first_overlap_before:
  "j < first_overlap collided b xs \<Longrightarrow> \<not> collided b (xs ! j)"
  unfolding first_overlap_def
proof (induction xs arbitrary: j)
  case Nil
  then show ?case by simp
next
  case (Cons x xs)
  then show ?case by (cases j) (auto split: if_splits)
qed

lemma Bullet_tick_hit:
  assumes "\<exists>x\<in>set os. collided (entity.truncate (Entity_tick addVec b)) x"
  shows "Bullet_tick addVec collided damage b es os =
     (let k = first_overlap collided (entity.truncate (Entity_tick addVec b)) os in
      \<lparr> this = die (Entity_tick addVec b), entities_after = es,
        objects_after = os[k := damage (os ! k) (dmg b)],
        calls = map (Collided Objects) [0..<Suc k] @ [Damage Objects k, Die] \<rparr>)"
  using assms first_hit_hit [where collided = collided and xs = os and damage = damage
      and b = "entity.truncate (Entity_tick addVec b)" and l = Objects and d = "dmg b" and i = 0]
  by (simp add: Bullet_tick_def Let_def die_def Entity_tick_def del: upt_Suc)

lemma Bullet_tick_miss:
  assumes "\<forall>x\<in>set os. \<not> collided (entity.truncate (Entity_tick addVec b)) x"
  shows "Bullet_tick addVec collided damage b es os =
     (let b1 = Entity_tick addVec b in
      if despawn b
      then \<lparr> this = b1, entities_after = es, objects_after = os,
             calls = map (Collided Objects) [0..<length os] \<rparr>
      else (case first_hit collided damage Entities (entity.truncate b1) (dmg b) 0 es of
              (es', hit2, cs2) \<Rightarrow>
                \<lparr> this = (if hit2 then die b1 else b1), entities_after = es', objects_after = os,
                  calls = map (Collided Objects) [0..<length os] @ cs2 \<rparr>))"
  using assms first_hit_miss [where collided = collided and xs = os and damage = damage
      and b = "entity.truncate (Entity_tick addVec b)" and l = Objects and d = "dmg b" and i = 0]
  by (simp add: Bullet_tick_def Let_def die_def Entity_tick_def split: prod.splits)

text \<open>
  Claim C1. When the bullet, moved by the base tick, overlaps at least one of the objects,
  then the first overlapping object in iteration order, and no other, has
  \<open>damage(dmg)\<close> applied; the bullet's despawn flag is true afterwards; the scan of the
  objects stops at that object; and no entity is tested or damaged in that tick: the
  calls made are the tests of the objects up to the first overlapping one, its damage,
  and \<open>die\<close>.
\<close>

theorem Bullet_tick_first_object_hit:
  assumes "\<exists>x\<in>set os. collided (entity.truncate (Entity_tick addVec b)) x"
  shows "let b1 = entity.truncate (Entity_tick addVec b);
             k = first_overlap collided b1 os;
             r = Bullet_tick addVec collided damage b es os
         in k < length os \<and> collided b1 (os ! k) \<and>
            (\<forall>j<k. \<not> collided b1 (os ! j)) \<and>
            objects_after r = os[k := damage (os ! k) (dmg b)] \<and>
            despawn (this r) \<and>
            entities_after r = es \<and>
            calls r = map (Collided Objects) [0..<Suc k] @ [Damage Objects k, Die]"
  using assms Bullet_tick_hit [where collided = collided and os = os and addVec = addVec
      and b = b and damage = damage and es = es]
    first_overlap_less [where collided = collided and xs = os
      and b = "entity.truncate (Entity_tick addVec b)"]
    first_overlap_collided [where collided = collided and xs = os
      and b = "entity.truncate (Entity_tick addVec b)"]
    first_overlap_before [where collided = collided and xs = os
      and b = "entity.truncate (Entity_tick addVec b)"]
  by (simp add: Let_def die_def del: upt_Suc)

theorem Bullet_tick_first_object_hit_witness:
  "(\<exists>x\<in>set [(Vec2 0 0, 100), (Vec2 1 0, 100), (Vec2 1 0, 80)].
       collided_circle (entity.truncate (Entity_tick Vec2_addVec (right_bullet 3))) x) \<and>
   (let r = Bullet_tick Vec2_addVec collided_circle damage_health (right_bullet 3)
              [(Vec2 1 0, 100)] [(Vec2 0 0, 100), (Vec2 1 0, 100), (Vec2 1 0, 80)]
    in objects_after r = [(Vec2 0 0, 100), (Vec2 1 0, 95), (Vec2 1 0, 80)] \<and>
       despawn (this r) \<and>
       entities_after r = [(Vec2 1 0, 100)] \<and>
       calls r = [Collided Objects 0, Collided Objects 1, Damage Objects 1, Die])"
proof -
  have pos: "entity.truncate (Entity_tick Vec2_addVec (right_bullet 3)) =
      \<lparr> type = ''bullet'', position = Vec2 1 0, velocity = Vec2 1 0, hitbox = 1 / 10,
        vulnerable = False, despawn = False \<rparr>"
    by (simp add: right_bullet_def Bullet_def origin_entity_def Entity_tick_def
        entity.truncate_def)
  have h: "\<exists>x\<in>set [(Vec2 0 0, 100), (Vec2 1 0, 100), (Vec2 1 0, 80)].
       collided_circle (entity.truncate (Entity_tick Vec2_addVec (right_bullet 3))) x"
    unfolding pos by simp
  have k: "first_overlap collided_circle
       (entity.truncate (Entity_tick Vec2_addVec (right_bullet 3)))
       [(Vec2 0 0, 100), (Vec2 1 0, 100), (Vec2 1 0, 80)] = 1"
    unfolding pos by (simp add: first_overlap_def)
  have d: "dmg (right_bullet 3) = 5"
    by (simp add: right_bullet_def Bullet_def)
  show ?thesis
    using h Bullet_tick_first_object_hit [where collided = collided_circle
        and addVec = Vec2_addVec and b = "right_bullet 3" and damage = damage_health
        and es = "[(Vec2 1 0, 100)]"
        and os = "[(Vec2 0 0, 100), (Vec2 1 0, 100), (Vec2 1 0, 80)]"]
    by (simp add: Let_def k d)
qed

text \<open>
  Claim C6, as the code has it. \<open>Bullet.tick\<close> neither reads nor changes the tick budget:
  the budget after the tick is the budget before it; the bullet is despawned after the
  tick exactly when it was despawned before or it overlaps an object or an entity; and
  a tick on a bullet with another budget does the same to the objects and the entities,
  with the same calls, so a collision is handled whatever the budget is.
\<close>

theorem Bullet_tick_budget_untouched:
  "let b1 = entity.truncate (Entity_tick addVec b);
       r = Bullet_tick addVec collided damage b es os
   in ticks (this r) = ticks b \<and>
      (despawn (this r) \<longleftrightarrow>
         despawn b \<or> (\<exists>x\<in>set os. collided b1 x) \<or> (\<exists>x\<in>set es. collided b1 x)) \<and>
      Bullet_tick addVec collided damage (b\<lparr>ticks := t\<rparr>) es os = r\<lparr>this := (this r)\<lparr>ticks := t\<rparr>\<rparr>"
proof -
  let ?b1 = "entity.truncate (Entity_tick addVec b)"
  have tr: "entity.truncate (Entity_tick addVec (b\<lparr>ticks := t\<rparr>)) = ?b1"
    by (simp add: Entity_tick_def entity.truncate_def)
  have indep: "Bullet_tick addVec collided damage (b\<lparr>ticks := t\<rparr>) es os =
      (Bullet_tick addVec collided damage b es os)
        \<lparr>this := (this (Bullet_tick addVec collided damage b es os))\<lparr>ticks := t\<rparr>\<rparr>"
    by (simp add: Bullet_tick_def Let_def Entity_tick_def die_def entity.truncate_def
        split: prod.splits)
  have budget: "ticks (this (Bullet_tick addVec collided damage b es os)) = ticks b"
    by (simp add: Bullet_tick_def Let_def Entity_tick_def die_def split: prod.splits)
  have gone: "despawn (this (Bullet_tick addVec collided damage b es os)) \<longleftrightarrow>
      despawn b \<or> (\<exists>x\<in>set os. collided ?b1 x) \<or> (\<exists>x\<in>set es. collided ?b1 x)"
  proof (cases "\<exists>x\<in>set os. collided ?b1 x")
    case True
    then show ?thesis
      using Bullet_tick_hit [where collided = collided and os = os and addVec = addVec
          and b = b and damage = damage and es = es]
      by (simp add: Let_def die_def)
  next
    case False
    then have miss: "\<forall>x\<in>set os. \<not> collided ?b1 x" by simp
    show ?thesis
      using False first_hit_flag [of collided damage Entities ?b1 "dmg b" 0 es]
        Bullet_tick_miss [where collided = collided and os = os and addVec = addVec
          and b = b and damage = damage and es = es, OF miss]
      by (auto simp add: Let_def die_def Entity_tick_def split: prod.splits)
  qed
  show ?thesis
    unfolding Let_def using budget gone indep by blast
qed

theorem Bullet_tick_budget_untouched_witness:
  "let r = Bullet_tick Vec2_addVec collided_circle damage_health (right_bullet 0)
             [] [(Vec2 1 0, 100)]
   in ticks (this r) = 0 \<and> despawn (this r) \<and>
      objects_after r = [(Vec2 1 0, 95)] \<and>
      Bullet_tick Vec2_addVec collided_circle damage_health (right_bullet 7)
        [] [(Vec2 1 0, 100)] = r\<lparr>this := (this r)\<lparr>ticks := 7\<rparr>\<rparr>"
proof -
  have b7: "(right_bullet 0)\<lparr>ticks := 7\<rparr> = right_bullet 7"
    by (simp add: right_bullet_def Bullet_def)
  have pos: "entity.truncate (Entity_tick Vec2_addVec (right_bullet 0)) =
      \<lparr> type = ''bullet'', position = Vec2 1 0, velocity = Vec2 1 0, hitbox = 1 / 10,
        vulnerable = False, despawn = False \<rparr>"
    by (simp add: right_bullet_def Bullet_def origin_entity_def Entity_tick_def
        entity.truncate_def)
  have after: "objects_after (Bullet_tick Vec2_addVec collided_circle damage_health
      (right_bullet 0) [] [(Vec2 1 0, 100)]) = [(Vec2 1 0, 95)]"
    by (simp add: Bullet_tick_def Let_def pos)
      (simp add: right_bullet_def Bullet_def Entity_tick_def die_def)
  show ?thesis
    using Bullet_tick_budget_untouched [where addVec = Vec2_addVec and b = "right_bullet 0"
        and collided = collided_circle and damage = damage_health and es = "[]"
        and os = "[(Vec2 1 0, 100)]" and t = 7]
    by (simp add: Let_def b7 pos after) (simp add: right_bullet_def Bullet_def)
qed

text \<open>
  Claim C6 as stated fails: a bullet with a budget of one tick and nothing to hit still
  has a budget of one after its tick, and is not despawned.
\<close>

theorem Bullet_tick_budget_counterexample:
  "ticks (this (Bullet_tick Vec2_addVec collided_circle damage_health (right_bullet 1) [] [])) = 1 \<and>
   \<not> despawn (this (Bullet_tick Vec2_addVec collided_circle damage_health (right_bullet 1) [] []))"
  by (simp add: Bullet_tick_def right_bullet_def Bullet_def origin_entity_def Entity_tick_def)

section \<open>Properties of the tick loop\<close>

text \<open>
  Claim C5. Whatever the world holds before, after \<open>postTick\<close> the dirty entities, dirty
  obstacles, discarded entities, discarded obstacles, particles and once-sounds are all
  empty; so they are after every run of the interval callback, which ends with
  \<open>postTick\<close>.
\<close>

theorem postTick_clears:
  "dirtyEntities (postTick w) = [] \<and> dirtyObstacles (postTick w) = [] \<and>
   discardEntities (postTick w) = [] \<and> discardObstacles (postTick w) = [] \<and>
   particles (postTick w) = [] \<and> onceSounds (postTick w) = [] \<and>
   dirtyEntities (interval tick w) = [] \<and> dirtyObstacles (interval tick w) = [] \<and>
   discardEntities (interval tick w) = [] \<and> discardObstacles (interval tick w) = [] \<and>
   particles (interval tick w) = [] \<and> onceSounds (interval tick w) = []"
  by (simp add: postTick_def interval_def)

section \<open>Properties of the movement packets\<close>

lemma angleVec_loop_sum:
  "ii + length ms \<le> length dirs \<Longrightarrow>
   angleVec_loop addVec dirs ii ms acc =
     Inr (foldl addVec acc (map snd (filter fst (zip ms (drop ii dirs)))))"
proof (induction ms arbitrary: ii acc)
  case Nil
  show ?case by simp
next
  case (Cons m ms)
  from Cons.prems have lt: "ii < length dirs" and le: "Suc ii + length ms \<le> length dirs"
    by simp_all
  have dr: "drop ii dirs = dirs ! ii # drop (Suc ii) dirs"
    using lt by (simp add: Cons_nth_drop_Suc)
  show ?case
    using Cons.IH [OF le] lt by (simp add: dr)
qed

lemma angleVec_loop_pressed_sum:
  "length flags \<le> length dirs \<Longrightarrow>
   angleVec_loop addVec dirs 0 flags zero = Inr (pressed_sum zero addVec dirs flags)"
  using angleVec_loop_sum [of 0 flags dirs addVec zero] by (simp add: pressed_sum_def)

lemma length_array_set:
  "direction < int (length xs) \<Longrightarrow> length (array_set xs direction v) = length xs"
  by (auto simp add: array_set_def)

lemma array_set_four:
  "length xs = 4 \<Longrightarrow> direction < 4 \<Longrightarrow>
   array_set xs direction v = (if 0 \<le> direction then xs[nat direction := v] else xs)"
  by (auto simp add: array_set_def)

lemma list4: "length xs = 4 \<Longrightarrow> \<exists>a b c d. xs = [a, b, c, d]"
  by (simp add: numeral_eq_Suc length_Suc_conv) blast

lemma pressed_sum_released:
  assumes "length flags = 4" and "length dirs = 4" and "\<forall>i<4. \<not> flags ! i"
  shows "pressed_sum zero addVec dirs flags = zero"
proof -
  from list4 [OF assms(1)] obtain a b c d where f: "flags = [a, b, c, d]" by blast
  from list4 [OF assms(2)] obtain p q r s where g: "dirs = [p, q, r, s]" by blast
  from assms(3) have "\<not> flags ! 0" "\<not> flags ! 1" "\<not> flags ! 2" "\<not> flags ! 3" by simp_all
  then show ?thesis by (simp add: f g pressed_sum_def)
qed

lemma pressed_sum_pair:
  assumes "length flags = 4" and "length dirs = 4" and "i < j" and "j < 4"
    and "\<forall>k<4. flags ! k \<longleftrightarrow> k = i \<or> k = j"
  shows "pressed_sum zero addVec dirs flags = addVec (addVec zero (dirs ! i)) (dirs ! j)"
proof -
  from list4 [OF assms(1)] obtain a b c d where f: "flags = [a, b, c, d]" by blast
  from list4 [OF assms(2)] obtain p q r s where g: "dirs = [p, q, r, s]" by blast
  from assms(5) have fl: "flags ! 0 \<longleftrightarrow> 0 = i \<or> 0 = j" "flags ! 1 \<longleftrightarrow> 1 = i \<or> 1 = j"
    "flags ! 2 \<longleftrightarrow> 2 = i \<or> 2 = j" "flags ! 3 \<longleftrightarrow> 3 = i \<or> 3 = j" by simp_all
  from assms(3,4) consider "i = 0 \<and> j = 1" | "i = 0 \<and> j = 2" | "i = 0 \<and> j = 3"
    | "i = 1 \<and> j = 2" | "i = 1 \<and> j = 3" | "i = 2 \<and> j = 3" by linarith
  then show ?thesis
    using fl by cases (simp_all add: f g pressed_sum_def)
qed

lemma movementpress_ok:
  assumes "length (movements c) = 4" and "length dirs = 4" and "direction < 4"
  shows "movementpress zero addVec unit dirs direction c =
     Inr (c\<lparr>movements := array_set (movements c) direction True,
            player := setVelocity (player c)
              (unit (pressed_sum zero addVec dirs (array_set (movements c) direction True)))\<rparr>)"
proof -
  have "length (array_set (movements c) direction True) \<le> length dirs"
    using assms by (simp add: length_array_set)
  from angleVec_loop_pressed_sum [OF this] show ?thesis
    by (simp add: movementpress_def Let_def)
qed

lemma movementrelease_ok:
  assumes "length (movements c) = 4" and "length dirs = 4" and "direction < 4"
  shows "movementrelease zero addVec unit dirs direction c =
     Inr (c\<lparr>movements := array_set (movements c) direction False,
            player := setVelocity (player c)
              (unit (pressed_sum zero addVec dirs (array_set (movements c) direction False)))\<rparr>)"
proof -
  have "length (array_set (movements c) direction False) \<le> length dirs"
    using assms by (simp add: length_array_set)
  from angleVec_loop_pressed_sum [OF this] show ?thesis
    by (simp add: movementrelease_def Let_def)
qed

text \<open>
  Claim C2. With four direction flags, a table of four direction vectors and a packet
  whose direction is below 4, both movement cases return; a press sets the flag of the
  packet's direction and a release clears it, the other flags staying as they are (a
  negative direction is no index and changes no flag); and the player is left with the
  unit-normalisation of the sum of the direction vectors of the flags that are then
  pressed. In particular, where normalising the zero vector
  gives zero: with all four flags released the velocity is zero, and with exactly two
  flags pressed whose direction vectors add up to zero the velocity is zero.
\<close>

theorem movement_velocity_is_unit_of_sum:
  assumes "length (movements c) = 4" and "length dirs = 4" and "direction < 4"
  shows "\<exists>c1 c2.
     movementpress zero addVec unit dirs direction c = Inr c1 \<and>
     movementrelease zero addVec unit dirs direction c = Inr c2 \<and>
     movements c1 = array_set (movements c) direction True \<and>
     movements c2 = array_set (movements c) direction False \<and>
     movements c1 = (if 0 \<le> direction then (movements c)[nat direction := True]
                     else movements c) \<and>
     movements c2 = (if 0 \<le> direction then (movements c)[nat direction := False]
                     else movements c) \<and>
     (\<forall>c' \<in> {c1, c2}.
        velocity (player c') = unit (pressed_sum zero addVec dirs (movements c')) \<and>
        (unit zero = zero \<longrightarrow>
           ((\<forall>i<4. \<not> movements c' ! i) \<longrightarrow> velocity (player c') = zero) \<and>
           (\<forall>i j. i < j \<and> j < 4 \<and> addVec (addVec zero (dirs ! i)) (dirs ! j) = zero \<and>
                  (\<forall>k<4. movements c' ! k \<longleftrightarrow> k = i \<or> k = j)
                \<longrightarrow> velocity (player c') = zero)))"
proof -
  define c1 where "c1 = c\<lparr>movements := array_set (movements c) direction True,
      player := setVelocity (player c)
        (unit (pressed_sum zero addVec dirs (array_set (movements c) direction True)))\<rparr>"
  define c2 where "c2 = c\<lparr>movements := array_set (movements c) direction False,
      player := setVelocity (player c)
        (unit (pressed_sum zero addVec dirs (array_set (movements c) direction False)))\<rparr>"
  have len: "length (array_set (movements c) direction v) = 4" for v
    using assms(1,3) by (simp add: length_array_set)
  have p: "movementpress zero addVec unit dirs direction c = Inr c1"
    unfolding c1_def by (rule movementpress_ok [OF assms])
  have r: "movementrelease zero addVec unit dirs direction c = Inr c2"
    unfolding c2_def by (rule movementrelease_ok [OF assms])
  have vel: "velocity (player c') = unit (pressed_sum zero addVec dirs (movements c'))"
    and len': "length (movements c') = 4" if "c' \<in> {c1, c2}" for c'
    using that len by (auto simp add: c1_def c2_def setVelocity_def)
  have rest: "velocity (player c') = zero"
    if "c' \<in> {c1, c2}" "unit zero = zero" "\<forall>i<4. \<not> movements c' ! i" for c'
    using pressed_sum_released [OF len' [OF that(1)] assms(2) that(3)] vel [OF that(1)] that(2)
    by simp
  have opp: "velocity (player c') = zero"
    if "c' \<in> {c1, c2}" "unit zero = zero" "i < j" "j < 4"
      "addVec (addVec zero (dirs ! i)) (dirs ! j) = zero"
      "\<forall>k<4. movements c' ! k \<longleftrightarrow> k = i \<or> k = j" for c' i j
    using pressed_sum_pair [OF len' [OF that(1)] assms(2) that(3,4,6)] vel [OF that(1)]
      that(2,5) by simp
  have m1: "movements c1 = array_set (movements c) direction True"
    and m2: "movements c2 = array_set (movements c) direction False"
    by (simp_all add: c1_def c2_def)
  have u1: "movements c1 = (if 0 \<le> direction then (movements c)[nat direction := True]
      else movements c)"
    unfolding m1 by (rule array_set_four [OF assms(1,3)])
  have u2: "movements c2 = (if 0 \<le> direction then (movements c)[nat direction := False]
      else movements c)"
    unfolding m2 by (rule array_set_four [OF assms(1,3)])
  from p r m1 m2 u1 u2 vel rest opp show ?thesis by blast
qed

theorem movement_velocity_is_unit_of_sum_witness:
  "length (movements (fresh_closure\<lparr>movements := [False, False, True, False]\<rparr>)) = 4 \<and>
   length DIRECTION_VEC = 4 \<and> (0::int) < 4 \<and> (2::int) < 4 \<and>
   Vec2_unit Vec2_ZERO = Vec2_ZERO \<and>
   Vec2_addVec (Vec2_addVec Vec2_ZERO (DIRECTION_VEC ! 0)) (DIRECTION_VEC ! 2) = Vec2_ZERO \<and>
   (\<exists>c1. movementpress Vec2_ZERO Vec2_addVec Vec2_unit DIRECTION_VEC 0
            (fresh_closure\<lparr>movements := [False, False, True, False]\<rparr>) = Inr c1 \<and>
         movements c1 = [True, False, True, False] \<and>
         velocity (player c1) = Vec2_ZERO) \<and>
   (\<exists>c2. movementrelease Vec2_ZERO Vec2_addVec Vec2_unit DIRECTION_VEC 2
            (fresh_closure\<lparr>movements := [False, False, True, False]\<rparr>) = Inr c2 \<and>
         movements c2 = [False, False, False, False] \<and>
         velocity (player c2) = Vec2_ZERO)"
proof -
  let ?c = "fresh_closure\<lparr>movements := [False, False, True, False]\<rparr>"
  have h1: "length (movements ?c) = 4" by simp
  have h2: "length DIRECTION_VEC = 4" by (simp add: DIRECTION_VEC_def)
  have h3: "(0::int) < 4" and h4: "(2::int) < 4" by simp_all
  have u: "Vec2_unit Vec2_ZERO = Vec2_ZERO" by (simp add: Vec2_ZERO_def)
  have o: "Vec2_addVec (Vec2_addVec Vec2_ZERO (DIRECTION_VEC ! 0)) (DIRECTION_VEC ! 2) = Vec2_ZERO"
    by (simp add: Vec2_ZERO_def DIRECTION_VEC_def)
  have f: "\<forall>k<4. [True, False, True, False] ! k \<longleftrightarrow> k = 0 \<or> k = (2::nat)"
    by (auto simp add: nth_Cons split: nat.splits)
  have g: "\<forall>k<4. \<not> [False, False, False, False] ! k"
    by (auto simp add: nth_Cons split: nat.splits)
  from movement_velocity_is_unit_of_sum [OF h1 h2 h3, of Vec2_ZERO Vec2_addVec Vec2_unit]
  obtain c1 where c1: "movementpress Vec2_ZERO Vec2_addVec Vec2_unit DIRECTION_VEC 0 ?c = Inr c1"
    and m: "movements c1 = (if (0::int) \<le> 0 then (movements ?c)[nat 0 := True]
        else movements ?c)"
    and z: "Vec2_unit Vec2_ZERO = Vec2_ZERO \<longrightarrow>
         (\<forall>i j. i < j \<and> j < 4 \<and>
             Vec2_addVec (Vec2_addVec Vec2_ZERO (DIRECTION_VEC ! i)) (DIRECTION_VEC ! j) = Vec2_ZERO \<and>
             (\<forall>k<4. movements c1 ! k \<longleftrightarrow> k = i \<or> k = j)
           \<longrightarrow> velocity (player c1) = Vec2_ZERO)"
    by blast
  have m': "movements c1 = [True, False, True, False]"
    using m by simp
  from z u have "\<forall>i j. i < j \<and> j < 4 \<and>
             Vec2_addVec (Vec2_addVec Vec2_ZERO (DIRECTION_VEC ! i)) (DIRECTION_VEC ! j) = Vec2_ZERO \<and>
             (\<forall>k<4. movements c1 ! k \<longleftrightarrow> k = i \<or> k = j)
           \<longrightarrow> velocity (player c1) = Vec2_ZERO"
    by (rule mp)
  from this [THEN spec, THEN spec, of 0 2] have v1: "velocity (player c1) = Vec2_ZERO"
    using o f unfolding m' by simp
  from movement_velocity_is_unit_of_sum [OF h1 h2 h4, of Vec2_ZERO Vec2_addVec Vec2_unit]
  obtain c2 where c2: "movementrelease Vec2_ZERO Vec2_addVec Vec2_unit DIRECTION_VEC 2 ?c = Inr c2"
    and n: "movements c2 = (if (0::int) \<le> 2 then (movements ?c)[nat 2 := False]
        else movements ?c)"
    and y: "Vec2_unit Vec2_ZERO = Vec2_ZERO \<longrightarrow>
         ((\<forall>i<4. \<not> movements c2 ! i) \<longrightarrow> velocity (player c2) = Vec2_ZERO)"
    by blast
  have n': "movements c2 = [False, False, False, False]"
    using n by (simp add: numeral_2_eq_2)
  from y u g have v2: "velocity (player c2) = Vec2_ZERO"
    unfolding n' by blast
  from h1 h2 h3 h4 u o c1 m' v1 c2 n' v2 show ?thesis by blast
qed

text \<open>
  Claim C8 does not hold of the code. A \<open>movementpress\<close> packet with direction 4, on a
  connection that has just been accepted, makes \<open>movements\<close> five flags long with the
  fifth pressed; the loop then hands \<open>DIRECTION_VEC[4]\<close>, which is \<open>undefined\<close>, to
  \<open>addVec\<close>, and the handler throws.
\<close>

theorem movementpress_direction_4_throws:
  "array_set (movements fresh_closure) 4 True = [False, False, False, False, True] \<and>
   movementpress Vec2_ZERO Vec2_addVec Vec2_unit DIRECTION_VEC 4 fresh_closure = Inl TypeError"
  by (simp add: movementpress_def fresh_closure_def array_set_def DIRECTION_VEC_def)

section \<open>Properties of the weapon switch\<close>

text \<open>
  An integer of magnitude below \<open>2 ^ 53\<close> is a double, so that sums of small indices are
  exact; beyond that a sum is rounded, \<open>1 + 2^53\<close> to \<open>2^53\<close>; and a loop that comes back
  to the index it started from, without having found a weapon there, never ends.
\<close>

lemma to_double_exact: "\<bar>i\<bar> < 2 ^ 53 \<Longrightarrow> to_double i = Num i"
  by (simp add: to_double_def nearest_double_def Let_def) linarith

lemma js_add_ties_to_even: "js_add (Num 1) (Num (2 ^ 53)) = Num (2 ^ 53)"
  by (simp add: to_double_def nearest_double_def Let_def)

lemma skip_empty_fixed_point:
  assumes "wrap (length (weapons inven)) (js_add h u) = h"
  shows "skip_empty getWeapon inven u h = (if getWeapon inven h \<noteq> None then Some h else None)"
proof (cases "getWeapon inven h \<noteq> None")
  case True
  then show ?thesis by (simp add: skip_empty.simps)
next
  case False
  have "skip_empty getWeapon inven u h = None"
  proof (rule ccontr)
    assume "skip_empty getWeapon inven u h \<noteq> None"
    then obtain y where y: "skip_empty getWeapon inven u h = Some y" by blast
    note R = skip_empty.raw_induct
      [where P = "\<lambda>g i d k (r::number). (g, i, d, k) \<noteq> (getWeapon, inven, u, h)"]
    have "(getWeapon, inven, u, h) \<noteq> (getWeapon, inven, u, h)"
    proof (rule R [OF _ y])
      fix f :: "('a inventory \<Rightarrow> number \<Rightarrow> 'a option) \<Rightarrow> 'a inventory \<Rightarrow> number \<Rightarrow> number
          \<Rightarrow> number option" and g i d k r
      assume IH: "\<And>g i d k r. f g i d k = Some r \<Longrightarrow> (g, i, d, k) \<noteq> (getWeapon, inven, u, h)"
      assume st: "(if g i k \<noteq> None then Some k
          else f g i d (wrap (length (weapons i)) (js_add k d))) = Some r"
      show "(g, i, d, k) \<noteq> (getWeapon, inven, u, h)"
      proof
        assume eq: "(g, i, d, k) = (getWeapon, inven, u, h)"
        with st False assms have "f getWeapon inven u h = Some r" by simp
        from IH [OF this] show False by simp
      qed
    qed
    then show False by simp
  qed
  with False show ?thesis by simp
qed

text \<open>
  An everyday switch, with \<open>getWeapon\<close> as the spec words it: from slot 2 of four, the
  only occupied one, \<open>delta\<close> -9 gives -7, the wrap-around -3, and the loop walks through
  0, 3 and back to 2.
\<close>

lemma switchweapon_delta_minus_9:
  "switchweapon Inventory_getWeapon (Num (- 9)) False (inventory (player fresh_closure)) =
     Some ((inventory (player fresh_closure))\<lparr>holding := Num 2\<rparr>)"
  by (simp add: switchweapon_def Let_def fresh_closure_def wrap_def skip_empty.simps
      to_double_def nearest_double_def)

text \<open>
  Claim C4 does not hold of the code. The wrap-around adds the number of slots once
  only, and numbers are doubles. Take four slots of which slot 2 is occupied,
  \<open>holding\<close> 2 and \<open>delta\<close> \<open>-2^56\<close>: \<open>holding + delta\<close> rounds to \<open>-2^56\<close>, adding 4 to it
  is absorbed by the rounding, and the loop starts from \<open>-2^56\<close>. Whatever \<open>getWeapon\<close>
  answers there, the claim fails: if it answers with a weapon the loop ends at once and
  \<open>holding\<close> is \<open>-2^56\<close>, which is no slot; if not, the step by -1 and the 4 added after
  it are absorbed again, and the loop never ends. With \<open>getWeapon\<close> as the spec words
  it, it never ends.
\<close>

theorem switchweapon_delta_absorbed:
  "(switchweapon getWeapon (Num (- (2 ^ 56))) False (inventory (player fresh_closure)) = None \<or>
    switchweapon getWeapon (Num (- (2 ^ 56))) False (inventory (player fresh_closure)) =
      Some ((inventory (player fresh_closure))\<lparr>holding := Num (- (2 ^ 56))\<rparr>)) \<and>
   weapons (inventory (player fresh_closure)) ! 2 = Some ''fists'' \<and>
   switchweapon Inventory_getWeapon (Num (- (2 ^ 56))) False (inventory (player fresh_closure))
     = None"
proof -
  let ?inv = "inventory (player fresh_closure)"
  let ?h = "Num (- 72057594037927936)"
  have e: "(2 :: int) ^ 56 = 72057594037927936" by simp
  have n: "length (weapons ?inv) = 4" and hold: "holding ?inv = Num 2"
    and w: "weapons ?inv ! 2 = Some ''fists''"
    by (simp_all add: fresh_closure_def)
  have a: "js_add (Num 2) ?h = ?h"
    by (simp add: to_double_def nearest_double_def Let_def)
  have b: "wrap 4 ?h = ?h"
    by (simp add: wrap_def to_double_def nearest_double_def Let_def)
  have c: "js_add ?h (Num (- 1)) = ?h"
    by (simp add: to_double_def nearest_double_def Let_def)
  have fp: "wrap (length (weapons ?inv)) (js_add ?h (Num (- 1))) = ?h"
    by (simp only: n c b)
  have loop: "skip_empty g ?inv (Num (- 1)) ?h = (if g ?inv ?h \<noteq> None then Some ?h else None)"
    for g :: "string inventory \<Rightarrow> number \<Rightarrow> string option"
    by (rule skip_empty_fixed_point [OF fp])
  have start: "wrap (length (weapons ?inv)) (js_add (holding ?inv) ?h) = ?h"
    by (simp only: n hold a b)
  have sw: "switchweapon g ?h False ?inv =
      (if g ?inv ?h \<noteq> None then Some (?inv\<lparr>holding := ?h\<rparr>) else None)"
    for g :: "string inventory \<Rightarrow> number \<Rightarrow> string option"
    unfolding switchweapon_def Let_def start by (simp add: loop)
  have none: "Inventory_getWeapon ?inv ?h = None"
    by simp
  show ?thesis
    unfolding e using sw [of getWeapon] sw [of Inventory_getWeapon] none w by auto
qed

section \<open>Properties of the connection handler\<close>

lemmas session_defs = run_def step_def deliver_def once_message_def on_message_def
  fire_timeout_def fire_wait_def resolve_def after_await_def close_def connection_def
  first_connection_def empty_world_def response_def packet_def

text \<open>
  The two outcomes of the handshake on which the code and the spec agree: a response
  that passes the check before \<open>wait(10000)\<close> resolves gets the connection accepted,
  with one more player and the new \<open>Player\<close> at the end of \<open>world.entities\<close>; a first
  message that fails the check gets \<open>socket.close()\<close> called and changes neither the
  count nor the world.
\<close>

lemma handshake_accepts:
  assumes "passes_check i decoded" and "t < t0 + 10000"
  shows "\<exists>u. msg_username decoded = Some u \<and>
     run Player (connection t0 i socks n w) [(t, Message decoded)] =
       (connection t0 i socks n w)
         \<lparr> numberOfPlayers := n + 1, world := w\<lparr>entities := entities w @ [Player i u]\<rparr>,
           connected := True, username := u, once_listener := False, awaiting := None,
           on_listener := True, timeout := Some (t + 30000) \<rparr>"
  using assms
  by (cases "msg_username decoded")
    (simp_all add: passes_check_def run_def step_def deliver_def once_message_def
      on_message_def fire_timeout_def fire_wait_def resolve_def after_await_def connection_def)

lemma handshake_rejects_bad_response:
  assumes "\<not> passes_check i decoded"
  shows "run Player (connection t0 i socks n w) [(t, Message decoded)] =
       (connection t0 i socks n w)
         \<lparr> once_listener := False, awaiting := None, close_called := True \<rparr>"
  using assms
  by (cases "msg_username decoded")
    (auto simp add: passes_check_def run_def step_def deliver_def once_message_def
      on_message_def fire_timeout_def fire_wait_def resolve_def after_await_def connection_def)

text \<open>
  Claim C3 does not hold of the code where the handshake times out. When no message has
  come by the time \<open>wait(10000)\<close> resolves, the handler returns at \<open>if (!connected) return\<close>:
  no player is created and the count stays, but \<open>socket.close()\<close> is not called, the
  socket stays open and in the \<open>sockets\<close> map, and the listener for the first message
  stays registered.
\<close>

theorem handshake_timeout_not_closed:
  "\<not> close_called (run Pair first_connection [(10000, Idle)]) \<and>
   socket_open (run Pair first_connection [(10000, Idle)]) \<and>
   ''a1'' \<in> sockets (run Pair first_connection [(10000, Idle)]) \<and>
   once_listener (run Pair first_connection [(10000, Idle)]) \<and>
   awaiting (run Pair first_connection [(10000, Idle)]) = None \<and>
   numberOfPlayers (run Pair first_connection [(10000, Idle)]) = 0 \<and>
   entities (world (run Pair first_connection [(10000, Idle)])) = []"
  by (simp add: session_defs)

text \<open>
  The close handler on a connection whose \<open>connected\<close> flag is set: the id leaves the
  socket map, the count goes down by one, the world is not touched, and a second close
  would not lower the count again.
\<close>

lemma close_after_acceptance:
  assumes "connected s"
  shows "close s = s\<lparr> sockets := sockets s - {ident s}, numberOfPlayers := numberOfPlayers s - 1,
                      connected := False, socket_open := False \<rparr> \<and>
         world (close s) = world s \<and>
         numberOfPlayers (close (close s)) = numberOfPlayers s - 1"
  using assms by (simp add: close_def)

text \<open>
  Claim C9 does not hold of the code for a connection whose handshake timed out. The
  listener for the first message is still registered after the timeout, so a response
  that passes the check one second later sets \<open>connected\<close>, although the handler has
  returned: no player is created and the count is not raised. The close handler then
  lowers the count, here from 0 to -1.
\<close>

theorem late_response_close_decrements:
  "numberOfPlayers (run Pair first_connection
      [(10000, Idle), (11000, Message (response ''a1'' ''alice'')), (12000, Close)]) = - 1 \<and>
   entities (world (run Pair first_connection
      [(10000, Idle), (11000, Message (response ''a1'' ''alice'')), (12000, Close)])) = [] \<and>
   \<not> on_listener (run Pair first_connection
      [(10000, Idle), (11000, Message (response ''a1'' ''alice''))]) \<and>
   numberOfPlayers (run Pair first_connection
      [(10000, Idle), (11000, Message (response ''a1'' ''alice''))]) = 0"
  by (simp add: session_defs)

lemma step_ident: "ident (step Player s ev) = ident s"
  by (cases ev; cases "snd ev")
    (auto simp add: step_def deliver_def once_message_def on_message_def fire_timeout_def
      fire_wait_def resolve_def after_await_def close_def Let_def split: option.splits)

lemma timers_unaccepted:
  "unaccepted n w s \<Longrightarrow>
   unaccepted n w (fire_timeout now (fire_wait Player now s)) \<and>
   once_listener (fire_timeout now (fire_wait Player now s)) = once_listener s \<and>
   socket_open (fire_timeout now (fire_wait Player now s)) = socket_open s \<and>
   ident (fire_timeout now (fire_wait Player now s)) = ident s"
  by (auto simp add: unaccepted_def fire_timeout_def fire_wait_def resolve_def after_await_def
      split: option.splits)

lemma step_unaccepted_no_message:
  assumes "unaccepted n w s" and "\<not> is_message (snd ev)"
  shows "unaccepted n w (step Player s ev)"
proof -
  let ?s1 = "fire_timeout (fst ev) (fire_wait Player (fst ev) s)"
  from timers_unaccepted [OF assms(1)] have u: "unaccepted n w ?s1" by blast
  then have "unaccepted n w (close ?s1)"
    by (simp add: unaccepted_def close_def)
  with u assms(2) show ?thesis
    by (cases "snd ev") (simp_all add: step_def Let_def)
qed

lemma deliver_failing_first:
  assumes "unaccepted n w s" and "\<not> passes_check (ident s) decoded"
  shows "unaccepted n w (deliver Player now decoded s) \<and>
         \<not> once_listener (deliver Player now decoded s)"
  using assms
  by (cases "msg_username decoded")
    (auto simp add: unaccepted_def passes_check_def deliver_def once_message_def resolve_def
      after_await_def Let_def split: option.splits)

lemma step_failing_first:
  assumes "unaccepted n w s" and "\<not> passes_check (ident s) decoded"
  shows "unaccepted n w (step Player s (t, Message decoded)) \<and>
     (once_listener (step Player s (t, Message decoded))
        \<longrightarrow> \<not> socket_open (step Player s (t, Message decoded)))"
proof -
  let ?s1 = "fire_timeout t (fire_wait Player t s)"
  from timers_unaccepted [OF assms(1)] have u: "unaccepted n w ?s1"
    and i: "ident ?s1 = ident s" by blast+
  from assms(2) i have "\<not> passes_check (ident ?s1) decoded" by simp
  from deliver_failing_first [OF u this] u show ?thesis
    by (simp add: step_def Let_def)
qed

lemma deliver_no_listener:
  "\<not> once_listener s \<Longrightarrow> \<not> on_listener s \<Longrightarrow> deliver Player now decoded s = s"
  by (simp add: deliver_def)

lemma step_rejected:
  assumes "unaccepted n w s" and "once_listener s \<longrightarrow> \<not> socket_open s"
  shows "unaccepted n w (step Player s ev) \<and>
     (once_listener (step Player s ev) \<longrightarrow> \<not> socket_open (step Player s ev))"
proof -
  let ?s1 = "fire_timeout (fst ev) (fire_wait Player (fst ev) s)"
  from timers_unaccepted [OF assms(1)] have u: "unaccepted n w ?s1"
    and o: "once_listener ?s1 = once_listener s" and k: "socket_open ?s1 = socket_open s"
    by blast+
  have c: "unaccepted n w (close ?s1) \<and> \<not> socket_open (close ?s1)"
    using u by (simp add: unaccepted_def close_def)
  have d: "deliver Player (fst ev) decoded ?s1 = ?s1" if "socket_open ?s1" for decoded
    using that u o k assms(2) by (simp add: deliver_no_listener unaccepted_def)
  show ?thesis
    using u o k c d assms(2) by (cases "snd ev") (auto simp add: step_def Let_def)
qed

lemma run_unaccepted_no_message:
  "unaccepted n w s \<Longrightarrow> \<forall>ev\<in>set evs. \<not> is_message (snd ev) \<Longrightarrow>
   unaccepted n w (run Player s evs) \<and> ident (run Player s evs) = ident s"
proof (induction evs arbitrary: s)
  case Nil
  then show ?case by (simp add: run_def)
next
  case (Cons ev evs)
  from Cons.prems have "unaccepted n w (step Player s ev)"
    by (simp add: step_unaccepted_no_message)
  from Cons.IH [OF this] Cons.prems(2) show ?case
    by (simp add: run_def step_ident)
qed

lemma run_rejected:
  "unaccepted n w s \<Longrightarrow> (once_listener s \<longrightarrow> \<not> socket_open s) \<Longrightarrow>
   unaccepted n w (run Player s evs)"
proof (induction evs arbitrary: s)
  case Nil
  then show ?case by (simp add: run_def)
next
  case (Cons ev evs)
  from step_rejected [OF Cons.prems] Cons.IH [of "step Player s ev"] show ?case
    by (simp add: run_def)
qed

text \<open>
  Claim C10. Let the first message on the socket fail the check (whatever came before it
  was no message: time passing, the timeout of the handshake, a close). Then whatever
  comes after it, a response with the right id and a non-empty username included, is
  not processed and the connection is never accepted: \<open>connected\<close> stays false, the
  message listener of an accepted connection and its timer are never set up, and the
  player count and the world stay as they were.
\<close>

theorem first_message_decides:
  assumes "\<forall>ev\<in>set before. \<not> is_message (snd ev)" and "\<not> passes_check i decoded"
  shows "unaccepted n w
     (run Player (connection t0 i socks n w) (before @ (t, Message decoded) # later))"
proof -
  let ?s0 = "connection t0 i socks n w"
  have "unaccepted n w ?s0" and "ident ?s0 = i"
    by (simp_all add: unaccepted_def connection_def)
  with run_unaccepted_no_message [OF _ assms(1), of n w ?s0 Player]
  have u: "unaccepted n w (run Player ?s0 before)" and i: "ident (run Player ?s0 before) = i"
    by simp_all
  from assms(2) i have "\<not> passes_check (ident (run Player ?s0 before)) decoded" by simp
  from step_failing_first [OF u this]
  have "unaccepted n w (run Player (step Player (run Player ?s0 before) (t, Message decoded)) later)"
    by (intro run_rejected) simp_all
  then show ?thesis by (simp add: run_def)
qed

theorem first_message_decides_witness:
  "\<not> is_message (snd (5 :: nat, Idle)) \<and>
   \<not> passes_check ''a1'' (response ''zz'' ''bob'') \<and>
   unaccepted 0 empty_world
     (run Pair first_connection
        [(5, Idle), (6, Message (response ''zz'' ''bob'')),
         (7, Message (response ''a1'' ''alice''))])"
proof -
  have h1: "\<forall>ev\<in>set [(5 :: nat, Idle)]. \<not> is_message (snd ev)" by simp
  have h2: "\<not> passes_check ''a1'' (response ''zz'' ''bob'')"
    by (simp add: passes_check_def response_def)
  from first_message_decides [OF h1 h2, of 0 empty_world Pair 0 "{}" 6
      "[(7, Message (response ''a1'' ''alice''))]"] h1 h2
  show ?thesis by (simp add: first_connection_def)
qed


















end
